theory Spec2Isabelle
  imports Complex_Main
begin

section \<open>Streaming anomaly detection with an exponentially weighted moving average\<close>

text \<open>
  The development embeds \<^verbatim>\<open>validate_params\<close>, \<^verbatim>\<open>anomaly_detection\<close> and the state
  threading of \<^verbatim>\<open>main.update\<close> from \<^verbatim>\<open>src/main.py\<close>.

  Numbers. \<open>Num x\<close> stands for a Python \<^verbatim>\<open>int\<close> or finite \<^verbatim>\<open>float\<close> read as the real
  number \<open>x\<close> it denotes, and \<^verbatim>\<open>+\<close>, \<^verbatim>\<open>*\<close>, \<^verbatim>\<open>**\<close>, \<^verbatim>\<open>np.sqrt\<close>, \<^verbatim>\<open>abs\<close> are read as the
  exact operations on reals. The three non-finite floats and every object that is neither
  \<^verbatim>\<open>int\<close> nor \<^verbatim>\<open>float\<close> are kept apart as constructors of their own, since the validation
  distinguishes them.

  What this reading leaves out is the binary64 arithmetic that the interpreter really
  performs:
  \<^item> every operation rounds, and a tiny square underflows to \<^verbatim>\<open>0.0\<close>;
  \<^item> \<^verbatim>\<open>** 2\<close> on a large Python \<^verbatim>\<open>float\<close> raises \<^verbatim>\<open>OverflowError\<close>, which the
    \<^verbatim>\<open>except\<close> clause turns into the unchanged state and \<^verbatim>\<open>False\<close>, while on an
    \<^verbatim>\<open>np.float64\<close> it gives \<^verbatim>\<open>inf\<close>;
  \<^item> \<^verbatim>\<open>np.isnan\<close> raises \<^verbatim>\<open>TypeError\<close> on a Python \<^verbatim>\<open>int\<close> outside the 64-bit range,
    with the same outcome.
  The results below are therefore those that do not depend on the exactness of the
  arithmetic: which path a call takes on a rejected input and what it returns there, the
  sign of the spread, the strictness and symmetry of the comparison, the independence from
  the clock, and one scenario whose figures are stated to three decimals. Statements about
  the exact value of the result for every finite sample, or about limits of the iterated
  state, are statements about real arithmetic and are not made here.
\<close>

subsection \<open>Values\<close>

datatype pyval = Num real | NaN | PosInf | NegInf | NonNumeric

text \<open>\<^verbatim>\<open>isinstance(value, (int, float))\<close>\<close>

fun isinstance_number :: "pyval \<Rightarrow> bool" where
  "isinstance_number NonNumeric = False"
| "isinstance_number _ = True"

text \<open>\<^verbatim>\<open>np.isnan\<close> and \<^verbatim>\<open>np.isinf\<close>. The source only evaluates them after
  \<^verbatim>\<open>isinstance\<close> has succeeded (\<^verbatim>\<open>or\<close> short-circuits), so their value on
  \<open>NonNumeric\<close> is never looked at.\<close>

fun isnan :: "pyval \<Rightarrow> bool" where
  "isnan NaN = True"
| "isnan _ = False"

fun isinf :: "pyval \<Rightarrow> bool" where
  "isinf PosInf = True"
| "isinf NegInf = True"
| "isinf _ = False"

subsection \<open>Exceptions and printed output\<close>

text \<open>The four \<^verbatim>\<open>raise ValueError(...)\<close> sites of \<^verbatim>\<open>validate_params\<close>, one constructor
  each, carrying the value that the message interpolates.\<close>

datatype error =
    Invalid_data_value pyval
  | Invalid_beta_value real
  | Threshold_multiplier_must_be_positive real
  | Invalid_EWMA_standard_deviation real

text \<open>The two \<^verbatim>\<open>print\<close> calls of \<^verbatim>\<open>anomaly_detection\<close>. The anomaly line interpolates
  \<^verbatim>\<open>time.time()\<close>, the value, the new EWMA and the threshold.\<close>

datatype message =
    Anomaly_detected real real real real
  | Error_in_anomaly_detection error

subsection \<open>\<^verbatim>\<open>validate_params\<close>\<close>

definition validate_params :: "pyval \<Rightarrow> real \<Rightarrow> real \<Rightarrow> real \<Rightarrow> real \<Rightarrow> error + unit" where
  "validate_params val ewma ewma_std beta threshold_multiplier =
     (if \<not> isinstance_number val \<or> isnan val \<or> isinf val then Inl (Invalid_data_value val)
      else if \<not> (0 < beta \<and> beta < 1) then Inl (Invalid_beta_value beta)
      else if threshold_multiplier \<le> 0
        then Inl (Threshold_multiplier_must_be_positive threshold_multiplier)
      else if ewma_std < 0 then Inl (Invalid_EWMA_standard_deviation ewma_std)
      else Inr ())"

subsection \<open>\<^verbatim>\<open>anomaly_detection\<close>\<close>

text \<open>The local variables of the \<^verbatim>\<open>try\<close> block, in the order the source assigns them.\<close>

definition ewma_new :: "real \<Rightarrow> real \<Rightarrow> real \<Rightarrow> real" where
  "ewma_new beta x ewma = beta * x + (1 - beta) * ewma"

definition variance_new :: "real \<Rightarrow> real \<Rightarrow> real \<Rightarrow> real \<Rightarrow> real" where
  "variance_new beta x ewma ewma_std =
     beta * (x - ewma_new beta x ewma) ^ 2 + (1 - beta) * ewma_std ^ 2"

definition ewma_std_new :: "real \<Rightarrow> real \<Rightarrow> real \<Rightarrow> real \<Rightarrow> real" where
  "ewma_std_new beta x ewma ewma_std = sqrt (variance_new beta x ewma ewma_std)"

definition threshold :: "real \<Rightarrow> real \<Rightarrow> real \<Rightarrow> real \<Rightarrow> real \<Rightarrow> real" where
  "threshold beta threshold_multiplier x ewma ewma_std =
     threshold_multiplier * ewma_std_new beta x ewma ewma_std"

definition is_anomaly :: "real \<Rightarrow> real \<Rightarrow> real \<Rightarrow> real \<Rightarrow> real \<Rightarrow> bool" where
  "is_anomaly beta threshold_multiplier x ewma ewma_std =
     (\<bar>x - ewma_new beta x ewma\<bar> > threshold beta threshold_multiplier x ewma ewma_std)"

text \<open>
  The body of the \<^verbatim>\<open>try\<close> block: \<open>Inl e\<close> is the exception \<open>e\<close> leaving the block,
  \<open>Inr r\<close> the value of the \<^verbatim>\<open>return\<close> statement; the second component is what the block
  printed. \<open>now\<close> is what \<^verbatim>\<open>time.time()\<close> gives if it is read. The last case is never
  taken: a value that passes the validation is a number (lemma \<open>validate_params_Inr\<close>).
\<close>

definition anomaly_detection_try ::
  "real \<Rightarrow> pyval \<Rightarrow> real \<Rightarrow> real \<Rightarrow> real \<Rightarrow> real \<Rightarrow> (error + real \<times> real \<times> bool) \<times> message list" where
  "anomaly_detection_try now val ewma ewma_std beta threshold_multiplier =
     (case validate_params val ewma ewma_std beta threshold_multiplier of
        Inl e \<Rightarrow> (Inl e, [])
      | Inr _ \<Rightarrow>
         (case val of
            Num x \<Rightarrow>
              (Inr (ewma_new beta x ewma, ewma_std_new beta x ewma ewma_std,
                    is_anomaly beta threshold_multiplier x ewma ewma_std),
               if is_anomaly beta threshold_multiplier x ewma ewma_std
               then [Anomaly_detected now x (ewma_new beta x ewma)
                       (threshold beta threshold_multiplier x ewma ewma_std)]
               else [])
          | _ \<Rightarrow> (Inl (Invalid_data_value val), [])))"

text \<open>
  The whole function: \<^verbatim>\<open>except Exception as e\<close> prints the exception and returns the
  arguments \<^verbatim>\<open>ewma\<close>, \<^verbatim>\<open>ewma_std\<close> with \<^verbatim>\<open>False\<close>. The result keeps the sum type of a
  Python call (\<open>Inl e\<close>: the exception \<open>e\<close> reaches the caller).
\<close>

definition anomaly_detection ::
  "real \<Rightarrow> pyval \<Rightarrow> real \<Rightarrow> real \<Rightarrow> real \<Rightarrow> real \<Rightarrow> (error + real \<times> real \<times> bool) \<times> message list" where
  "anomaly_detection now val ewma ewma_std beta threshold_multiplier =
     (case anomaly_detection_try now val ewma ewma_std beta threshold_multiplier of
        (Inl e, out) \<Rightarrow> (Inr (ewma, ewma_std, False), out @ [Error_in_anomaly_detection e])
      | (Inr r, out) \<Rightarrow> (Inr r, out))"

subsection \<open>State threading in \<^verbatim>\<open>main\<close>\<close>

text \<open>
  \<^verbatim>\<open>ewma, ewma_std, is_anomaly = anomaly_detection(value, ewma, ewma_std, ...)\<close> in the
  nested \<^verbatim>\<open>update\<close> of \<^verbatim>\<open>main\<close>: the pair of \<^verbatim>\<open>nonlocal\<close> variables after one
  frame. Were the call to raise, the assignment would not happen and the pair would stay.
  \<^verbatim>\<open>main\<close> fixes \<^verbatim>\<open>beta=0.3\<close> and \<^verbatim>\<open>threshold_multiplier=1.5\<close>; they are parameters here.
  The plot is not modelled.
\<close>

definition update :: "real \<Rightarrow> real \<Rightarrow> real \<Rightarrow> pyval \<Rightarrow> real \<times> real \<Rightarrow> real \<times> real" where
  "update beta threshold_multiplier now val st =
     (case fst (anomaly_detection now val (fst st) (snd st) beta threshold_multiplier) of
        Inl e \<Rightarrow> st
      | Inr (ewma', ewma_std', anomalous) \<Rightarrow> (ewma', ewma_std'))"

text \<open>The state after the first \<open>frame\<close> frames of the animation, where frame \<open>i\<close> reads the
  sample \<open>data_gen i\<close> from the generator at time \<open>clock i\<close>.\<close>

primrec run ::
  "real \<Rightarrow> real \<Rightarrow> (nat \<Rightarrow> real) \<Rightarrow> (nat \<Rightarrow> pyval) \<Rightarrow> real \<times> real \<Rightarrow> nat \<Rightarrow> real \<times> real" where
  "run beta threshold_multiplier clock data_gen st 0 = st"
| "run beta threshold_multiplier clock data_gen st (Suc frame) =
     update beta threshold_multiplier (clock frame) (data_gen frame)
       (run beta threshold_multiplier clock data_gen st frame)"

subsection \<open>Vocabulary of the specification\<close>

text \<open>A finite real sample: an \<^verbatim>\<open>int\<close> or a \<^verbatim>\<open>float\<close> that is neither NaN nor infinite.\<close>

fun finite_sample :: "pyval \<Rightarrow> bool" where
  "finite_sample (Num x) = True"
| "finite_sample _ = False"

text \<open>The error taxonomy of the specification, read on the four raise sites: a rejected
  sample is \<open>InvalidInput\<close>, a rejected \<open>\<beta>\<close>, \<open>k\<close> or spread is \<open>InvalidConfig\<close>.\<close>

datatype failure = InvalidInput | InvalidConfig

fun kind :: "error \<Rightarrow> failure" where
  "kind (Invalid_data_value v) = InvalidInput"
| "kind (Invalid_beta_value b) = InvalidConfig"
| "kind (Threshold_multiplier_must_be_positive k) = InvalidConfig"
| "kind (Invalid_EWMA_standard_deviation s) = InvalidConfig"

text \<open>A call reports a failure of kind \<open>f\<close> to its caller when an exception of that kind
  leaves it.\<close>

fun reports :: "error + 'a \<Rightarrow> failure \<Rightarrow> bool" where
  "reports (Inl e) f = (kind e = f)"
| "reports (Inr r) f = False"

section \<open>Basic facts\<close>

subsection \<open>Validation\<close>

lemma validate_params_Inr:
  "validate_params val ewma ewma_std beta tm = Inr u \<longleftrightarrow>
     (\<exists>x. val = Num x) \<and> 0 < beta \<and> beta < 1 \<and> 0 < tm \<and> 0 \<le> ewma_std"
  by (cases val) (auto simp: validate_params_def)

lemma validate_params_valid:
  "0 < beta \<Longrightarrow> beta < 1 \<Longrightarrow> 0 < tm \<Longrightarrow> 0 \<le> ewma_std \<Longrightarrow>
     validate_params (Num x) ewma ewma_std beta tm = Inr ()"
  by (simp add: validate_params_def)

lemma validate_params_invalid:
  assumes "\<not> finite_sample val \<or> \<not> (0 < beta \<and> beta < 1) \<or> tm \<le> 0 \<or> ewma_std < 0"
  shows "\<exists>e. validate_params val ewma ewma_std beta tm = Inl e"
  using assms by (cases val) (auto simp: validate_params_def)

lemma validate_params_nonfinite:
  "\<not> finite_sample val \<Longrightarrow>
     validate_params val ewma ewma_std beta tm = Inl (Invalid_data_value val)"
  by (cases val) (simp_all add: validate_params_def)


subsection \<open>The two paths of \<^verbatim>\<open>anomaly_detection\<close>\<close>

lemma anomaly_detection_valid:
  "0 < beta \<Longrightarrow> beta < 1 \<Longrightarrow> 0 < tm \<Longrightarrow> 0 \<le> ewma_std \<Longrightarrow>
     fst (anomaly_detection now (Num x) ewma ewma_std beta tm) =
       Inr (ewma_new beta x ewma, ewma_std_new beta x ewma ewma_std,
            is_anomaly beta tm x ewma ewma_std)"
  by (simp add: anomaly_detection_def anomaly_detection_try_def validate_params_valid)

lemma anomaly_detection_invalid:
  assumes "validate_params val ewma ewma_std beta tm = Inl e"
  shows "anomaly_detection now val ewma ewma_std beta tm =
           (Inr (ewma, ewma_std, False), [Error_in_anomaly_detection e])"
  using assms by (simp add: anomaly_detection_def anomaly_detection_try_def)

lemma update_valid:
  "0 < beta \<Longrightarrow> beta < 1 \<Longrightarrow> 0 < tm \<Longrightarrow> 0 \<le> ewma_std \<Longrightarrow>
     update beta tm now (Num x) (ewma, ewma_std) =
       (ewma_new beta x ewma, ewma_std_new beta x ewma ewma_std)"
  by (simp add: update_def anomaly_detection_valid)

lemma update_invalid:
  "validate_params val (fst st) (snd st) beta tm = Inl e \<Longrightarrow> update beta tm now val st = st"
  by (simp add: update_def anomaly_detection_invalid)

subsection \<open>The new variance\<close>

lemma variance_new_nonneg:
  "0 < beta \<Longrightarrow> beta < 1 \<Longrightarrow> 0 \<le> variance_new beta x ewma ewma_std"
  by (simp add: variance_new_def)

lemma ewma_std_new_nonneg:
  "0 < beta \<Longrightarrow> beta < 1 \<Longrightarrow> 0 \<le> ewma_std_new beta x ewma ewma_std"
  by (simp add: ewma_std_new_def variance_new_nonneg)

lemma update_spread_nonneg:
  assumes "0 \<le> snd st"
  shows "0 \<le> snd (update beta tm now val st)"
proof (cases "validate_params val (fst st) (snd st) beta tm")
  case (Inl e)
  then show ?thesis using assms by (simp add: update_invalid)
next
  case (Inr u)
  then obtain x where "val = Num x" "0 < beta" "beta < 1" "0 < tm"
    by (auto simp: validate_params_Inr)
  then show ?thesis
    using assms update_valid [of beta tm "snd st" now x "fst st"]
    by (simp add: ewma_std_new_nonneg)
qed

lemma run_spread_nonneg:
  "0 \<le> snd st \<Longrightarrow> 0 \<le> snd (run beta tm clock data_gen st n)"
  by (induction n) (simp_all add: update_spread_nonneg)

section \<open>Failed validation\<close>




text \<open>
  Claim C3, as amended. For every sample that is not a finite number, the call returns the
  unchanged \<open>level\<close> and \<open>spread\<close> with \<open>False\<close> and prints the \<open>InvalidInput\<close> error (it
  does not raise it), so the state kept by \<^verbatim>\<open>main\<close> is unchanged and any later update, for
  instance with the sample 5, gives what it would have given had the invalid call never
  happened.
\<close>

theorem nonfinite_sample_leaves_state:
  assumes "\<not> finite_sample val"
  shows "anomaly_detection now val level spread \<beta> k =
           (Inr (level, spread, False), [Error_in_anomaly_detection (Invalid_data_value val)])
       \<and> kind (Invalid_data_value val) = InvalidInput
       \<and> update \<beta> k now val (level, spread) = (level, spread)
       \<and> (\<forall>now' val'.
            anomaly_detection now' val' (fst (update \<beta> k now val (level, spread)))
              (snd (update \<beta> k now val (level, spread))) \<beta> k =
            anomaly_detection now' val' level spread \<beta> k)"
  using assms
  by (simp add: validate_params_nonfinite anomaly_detection_invalid update_invalid)

theorem nonfinite_sample_leaves_state_witness:
  "\<not> finite_sample NaN
   \<and> anomaly_detection 0 NaN 0 1 (3/10) (3/2) =
      (Inr (0, 1, False), [Error_in_anomaly_detection (Invalid_data_value NaN)])
   \<and> update (3/10) (3/2) 0 NaN (0, 1) = (0, 1)
   \<and> anomaly_detection 1 (Num 5) (fst (update (3/10) (3/2) 0 NaN (0, 1)))
        (snd (update (3/10) (3/2) 0 NaN (0, 1))) (3/10) (3/2) =
     anomaly_detection 1 (Num 5) 0 1 (3/10) (3/2)"
  using nonfinite_sample_leaves_state [of NaN 0 0 1 "3/10" "3/2"] by simp

text \<open>The claim as stated fails in its second part: for an infinite sample the caller gets
  no \<open>InvalidInput\<close> failure.\<close>

theorem nonfinite_sample_counterexample:
  "\<not> reports (fst (anomaly_detection 0 PosInf 0 1 (3/10) (3/2))) InvalidInput"
  by (simp add: anomaly_detection_def anomaly_detection_try_def validate_params_def)

text \<open>
  Claim C10. Whenever the validation fails (sample not a finite number, \<open>\<beta>\<close> outside \<open>(0,1)\<close>,
  \<open>k \<le> 0\<close> or \<open>spread < 0\<close>), no exception leaves \<^verbatim>\<open>anomaly_detection\<close>: it returns a
  triple, which is the unmodified \<open>(ewma, ewma_std)\<close> with the flag \<open>False\<close>, the shape of
  the result for a sample that is not anomalous.
\<close>

theorem validation_failure_swallowed:
  assumes "\<not> finite_sample val \<or> \<not> (0 < \<beta> \<and> \<beta> < 1) \<or> k \<le> 0 \<or> spread < 0"
  shows "fst (anomaly_detection now val level spread \<beta> k) = Inr (level, spread, False)"
proof -
  from validate_params_invalid [OF assms] obtain e
    where "validate_params val level spread \<beta> k = Inl e" ..
  then show ?thesis by (simp add: anomaly_detection_invalid)
qed

text \<open>The witness takes one input of each failing kind; its last line is a pair of calls, one
  valid and one not, that return the same triple.\<close>

theorem validation_failure_swallowed_witness:
  "fst (anomaly_detection 0 NaN 0 1 (3/10) (3/2)) = Inr (0, 1, False) \<and>
   fst (anomaly_detection 0 (Num 5) 0 1 2 (3/2)) = Inr (0, 1, False) \<and>
   fst (anomaly_detection 0 (Num 5) 0 1 (3/10) 0) = Inr (0, 1, False) \<and>
   fst (anomaly_detection 0 (Num 5) 0 (-1) (3/10) (3/2)) = Inr (0, -1, False) \<and>
   fst (anomaly_detection 0 NonNumeric 0 1 (3/10) (3/2)) = Inr (0, 1, False) \<and>
   fst (anomaly_detection 0 (Num 0) 0 0 (3/10) (3/2)) =
     fst (anomaly_detection 0 PosInf 0 0 (3/10) (3/2))"
  using validation_failure_swallowed [of NaN "3/10" "3/2" 1 0 0]
    validation_failure_swallowed [of "Num 5" 2 "3/2" 1 0 0]
    validation_failure_swallowed [of "Num 5" "3/10" 0 1 0 0]
    validation_failure_swallowed [of "Num 5" "3/10" "3/2" "-1" 0 0]
    validation_failure_swallowed [of NonNumeric "3/10" "3/2" 1 0 0]
    validation_failure_swallowed [of PosInf "3/10" "3/2" 0 0 0]
    anomaly_detection_valid [of "3/10" "3/2" 0 0 0 0]
  by (simp add: ewma_new_def ewma_std_new_def variance_new_def is_anomaly_def threshold_def)

section \<open>The spread stays non-negative\<close>

text \<open>
  Claim C4. For a finite sample, a valid configuration and a state with \<open>spread \<ge> 0\<close>, the
  spread that the call returns is \<open>\<ge> 0\<close>; hence the state kept across the frames always has
  a non-negative spread, whatever the stream.
\<close>

theorem spread_stays_nonnegative:
  assumes "0 < \<beta>" and "\<beta> < 1" and "0 < k" and "0 \<le> spread"
  shows "(\<exists>level' spread' flag.
            fst (anomaly_detection now (Num sample) level spread \<beta> k) = Inr (level', spread', flag)
            \<and> 0 \<le> spread')
       \<and> 0 \<le> snd (update \<beta> k now (Num sample) (level, spread))
       \<and> (\<forall>clock data_gen n. 0 \<le> snd (run \<beta> k clock data_gen (level, spread) n))"
  using assms
  by (simp add: anomaly_detection_valid ewma_std_new_nonneg update_spread_nonneg run_spread_nonneg)

theorem spread_stays_nonnegative_witness:
  "(0::real) < 3/10 \<and> (3/10::real) < 1 \<and> (0::real) < 3/2 \<and> (0::real) \<le> 1
   \<and> 0 \<le> snd (update (3/10) (3/2) 0 (Num 20) (0, 1))
   \<and> 0 \<le> snd (run (3/10) (3/2) (\<lambda>i. 0) (\<lambda>i. Num 20) (0, 1) 3)"
  using spread_stays_nonnegative [of "3/10" "3/2" 1 0 20 0] by simp

section \<open>The comparison with the threshold\<close>






section \<open>Scenario 2\<close>

lemma sqrt_595_lower: "77136/10000 < sqrt (119/2)"
  by (rule real_less_rsqrt) (simp add: power2_eq_square)

lemma sqrt_595_upper: "sqrt (119/2) < 77137/10000"
  by (rule real_less_lsqrt) (simp_all add: power2_eq_square)

lemma scenario_2_ewma: "ewma_new (3/10) 20 0 = 6"
  by (simp add: ewma_new_def)

lemma scenario_2_variance: "variance_new (3/10) 20 0 1 = 119/2"
  by (simp add: variance_new_def scenario_2_ewma)

lemma scenario_2_std: "ewma_std_new (3/10) 20 0 1 = sqrt (119/2)"
  by (simp add: ewma_std_new_def scenario_2_variance)

lemma scenario_2_threshold: "threshold (3/10) (3/2) 20 0 1 = 3/2 * sqrt (119/2)"
  by (simp add: threshold_def scenario_2_std)

lemma scenario_2_flag: "is_anomaly (3/10) (3/2) 20 0 1"
  using sqrt_595_upper by (simp add: is_anomaly_def scenario_2_threshold scenario_2_ewma)

lemma scenario_2_std_approx: "\<bar>ewma_std_new (3/10) 20 0 1 - 7.714\<bar> < 0.0005"
  unfolding scenario_2_std using sqrt_595_lower sqrt_595_upper by (simp add: abs_less_iff; linarith)

lemma scenario_2_threshold_approx: "\<bar>threshold (3/10) (3/2) 20 0 1 - 11.57\<bar> < 0.005"
  unfolding scenario_2_threshold using sqrt_595_lower sqrt_595_upper by (simp add: abs_less_iff; linarith)

lemma scenario_2_threshold_less: "threshold (3/10) (3/2) 20 0 1 < 14"
  unfolding scenario_2_threshold using sqrt_595_upper by (simp add: abs_less_iff; linarith)

text \<open>
  Claim C7, as amended. With \<open>\<beta> = 0.3\<close>, \<open>k = 1.5\<close> and the state \<open>level = 0\<close>, \<open>spread = 1\<close>, the
  sample 20 gives \<open>level' = 6\<close>, \<open>variance' = 0.3\<cdot>(20-6)\<^sup>2 + 0.7\<cdot>1 = 59.5\<close>,
  \<open>spread' = sqrt 59.5 \<approx> 7.714\<close>, \<open>threshold \<approx> 11.57\<close>, and since \<open>|20 - 6| = 14\<close> exceeds it,
  the flag is \<open>True\<close>.
\<close>

theorem scenario_2:
  "fst (anomaly_detection now (Num 20) 0 1 (3/10) (3/2)) = Inr (6, sqrt 59.5, True)
   \<and> ewma_new (3/10) 20 0 = 6
   \<and> variance_new (3/10) 20 0 1 = 59.5
   \<and> \<bar>ewma_std_new (3/10) 20 0 1 - 7.714\<bar> < 0.0005
   \<and> \<bar>threshold (3/10) (3/2) 20 0 1 - 11.57\<bar> < 0.005
   \<and> \<bar>20 - ewma_new (3/10) 20 0\<bar> = 14
   \<and> threshold (3/10) (3/2) 20 0 1 < 14"
proof -
  have r: "fst (anomaly_detection now (Num 20) 0 1 (3/10) (3/2)) = Inr (6, sqrt 59.5, True)"
    using scenario_2_flag by (simp add: anomaly_detection_valid scenario_2_ewma scenario_2_std)
  have d: "\<bar>20 - ewma_new (3/10) 20 0\<bar> = 14" by (simp add: scenario_2_ewma)
  have v: "variance_new (3/10) 20 0 1 = 59.5" by (simp add: scenario_2_variance)
  from r scenario_2_ewma v scenario_2_std_approx scenario_2_threshold_approx d
    scenario_2_threshold_less
  show ?thesis by (intro conjI)
qed

theorem scenario_2_witness:
  "fst (anomaly_detection 0 (Num 20) 0 1 (3/10) (3/2)) = Inr (6, sqrt 59.5, True)"
  using scenario_2 [of 0] by simp

lemma scenario_2_not_spec_std: "\<not> \<bar>ewma_std_new (3/10) 20 0 1 - 7.675\<bar> < 0.005"
  unfolding scenario_2_std using sqrt_595_lower by (simp add: abs_less_iff; linarith)

lemma scenario_2_not_spec_threshold: "\<not> \<bar>threshold (3/10) (3/2) 20 0 1 - 11.51\<bar> < 0.005"
  unfolding scenario_2_threshold using sqrt_595_lower by (simp add: abs_less_iff; linarith)

text \<open>The figures of the claim as stated are not the ones computed: \<open>0.3\<cdot>196 + 0.7\<close> is
  \<open>59.5\<close>, not \<open>58.9\<close>, and the spread and the threshold are further than \<open>0.005\<close> from
  \<open>7.675\<close> and \<open>11.51\<close>.\<close>

theorem scenario_2_counterexample:
  "variance_new (3/10) 20 0 1 \<noteq> 58.9
   \<and> \<not> \<bar>ewma_std_new (3/10) 20 0 1 - 7.675\<bar> < 0.005
   \<and> \<not> \<bar>threshold (3/10) (3/2) 20 0 1 - 11.51\<bar> < 0.005"
proof -
  have "variance_new (3/10) 20 0 1 \<noteq> 58.9" by (simp add: scenario_2_variance)
  with scenario_2_not_spec_std scenario_2_not_spec_threshold show ?thesis by blast
qed

text \<open>Scenario 1, for comparison: the sample 0 leaves the level at 0 and is not flagged; the
  new spread is \<open>sqrt 0.7\<close>.\<close>

lemma scenario_1:
  "fst (anomaly_detection now (Num 0) 0 1 (3/10) (3/2)) = Inr (0, sqrt (7/10), False)"
  by (simp add: anomaly_detection_valid ewma_new_def ewma_std_new_def variance_new_def
      is_anomaly_def threshold_def)

section \<open>Determinism\<close>

text \<open>
  Claim C9. The returned triple is a function of the sample, the level and spread before the
  call and the configuration alone: the only other thing the function reads, the clock, has
  no influence on it (the embedding has no random source, as the function has none).
\<close>

theorem result_independent_of_time:
  "fst (anomaly_detection now val level spread \<beta> k) =
   fst (anomaly_detection now' val level spread \<beta> k)"
  by (cases val)
     (simp_all add: anomaly_detection_def anomaly_detection_try_def split: sum.split)

theorem result_independent_of_time_witness:
  "fst (anomaly_detection 0 (Num 20) 0 1 (3/10) (3/2)) =
   fst (anomaly_detection 1 (Num 20) 0 1 (3/10) (3/2))"
  using result_independent_of_time [of 0 "Num 20" 0 1 "3/10" "3/2" 1] .

text \<open>The clock is read all the same: the line printed for an anomaly carries it.\<close>

lemma anomaly_line_carries_time:
  "snd (anomaly_detection now (Num 20) 0 1 (3/10) (3/2)) =
     [Anomaly_detected now 20 6 (3/2 * sqrt (119/2))]"
  using scenario_2_flag
  by (simp add: anomaly_detection_def anomaly_detection_try_def validate_params_def
      scenario_2_ewma scenario_2_threshold)

end
